theory Spec2Isabelle
  imports Complex_Main "HOL-Library.Sublist"
begin

section \<open>Python values and errors\<close>

text \<open>
  The script \<open>src/main.py\<close> is modelled function by function. Every exception the
  Python can raise is a value of \<open>py_error\<close>; a function that can raise returns
  \<open>py_error + 'a\<close> with \<open>Inl\<close> for the exception. Python strings are \<open>string\<close>
  (non-ASCII text is carried as its UTF-8 bytes). Calls into libraries (the literal
  parser, \<open>str.format\<close>, the sampler of the data frame, the language model) are
  parameters of the functions that make them.
\<close>

datatype py_error =
    ParseError
  | KeyError string
  | TypeError
  | IndexError
  | ValueError
  | EOFError
  | AttributeError
  | OtherError string
  | KeyboardInterrupt

text \<open>\<open>except Exception\<close> catches every class but the ones deriving from
  \<open>BaseException\<close> alone.\<close>

fun is_Exception :: "py_error \<Rightarrow> bool" where
  "is_Exception KeyboardInterrupt = False"
| "is_Exception _ = True"

text \<open>The values \<open>ast.literal_eval\<close> can return (floats, bytes, tuples and sets are
  left out: no key of the script reads them).\<close>

datatype pyval =
    PNone
  | PBool bool
  | PInt int
  | PStr string
  | PList "pyval list"
  | PDict "(pyval \<times> pyval) list"

section \<open>Formatting integers and joining lines\<close>

text \<open>\<open>str(n)\<close> for a Python integer: decimal digits, most significant first, and a
  minus sign for a negative number.\<close>

definition digit_char :: "nat \<Rightarrow> char" where
  "digit_char d = ''0123456789'' ! (d mod 10)"

fun str_nat :: "nat \<Rightarrow> string" where
  "str_nat n = (if n < 10 then [digit_char n] else str_nat (n div 10) @ [digit_char (n mod 10)])"

declare str_nat.simps [simp del]

definition str_int :: "int \<Rightarrow> string" where
  "str_int i = (if i < 0 then CHR ''-'' # str_nat (nat (- i)) else str_nat (nat i))"

text \<open>\<open>sep.join(xs)\<close>.\<close>

fun join :: "string \<Rightarrow> string list \<Rightarrow> string" where
  "join sep [] = []"
| "join sep [x] = x"
| "join sep (x # y # ys) = x @ sep @ join sep (y # ys)"

text \<open>\<open>s.split(c)\<close> for a one-character separator: the text between the separators,
  so the empty string splits into one empty piece.\<close>

fun split_on :: "char \<Rightarrow> string \<Rightarrow> string list" where
  "split_on c [] = [[]]"
| "split_on c (x # xs) =
     (if x = c then [] # split_on c xs
      else (case split_on c xs of [] \<Rightarrow> [[x]] | l # ls \<Rightarrow> (x # l) # ls))"

definition newline :: char where
  "newline = CHR 0x0A"

text \<open>The lines of a text: what \<open>s.split("\n")\<close> returns.\<close>

definition lines_of :: "string \<Rightarrow> string list" where
  "lines_of s = split_on newline s"

section \<open>Prompt Builder\<close>

text \<open>The flat record of one question, with the field types of the data model.\<close>

record exam_record =
  rec_id :: string
  rec_paragraph :: string
  rec_question :: string
  rec_choices :: "string list"
  rec_answer :: "int option"
  rec_question_plus :: "string option"

text \<open>
  Lines 67 and 104:
  \<open>"\n".join([f"{idx + 1} - {choice}" for idx, choice in enumerate(choices)])\<close>.
\<close>

definition choice_line :: "nat \<times> string \<Rightarrow> string" where
  "choice_line p = str_nat (fst p + 1) @ '' - '' @ snd p"

definition choices_string :: "string list \<Rightarrow> string" where
  "choices_string choices = join [newline] (map choice_line (enumerate 0 choices))"

text \<open>
  \<open>str.format\<close> is a built-in: the builder takes it as the parameter \<open>fmt\<close>, called
  with the template and the keyword arguments in the order the source writes them.
\<close>

type_synonym formatter = "string \<Rightarrow> (string \<times> string) list \<Rightarrow> py_error + string"

datatype role = System | User | Assistant

record prompt_message =
  msg_role :: role
  msg_content :: string

text \<open>The system turn of lines 90 and 127, as the UTF-8 bytes of the Korean sentence
  ("read the passage and find the answer to the question").\<close>

definition system_instruction :: string where
  "system_instruction =
     [CHR 0xEC, CHR 0xA7, CHR 0x80, CHR 0xEB, CHR 0xAC, CHR 0xB8, CHR 0xEC, CHR 0x9D,
      CHR 0x84, CHR 0x20, CHR 0xEC, CHR 0x9D, CHR 0xBD, CHR 0xEA, CHR 0xB3, CHR 0xA0,
      CHR 0x20, CHR 0xEC, CHR 0xA7, CHR 0x88, CHR 0xEB, CHR 0xAC, CHR 0xB8, CHR 0xEC,
      CHR 0x9D, CHR 0x98, CHR 0x20, CHR 0xEB, CHR 0x8B, CHR 0xB5, CHR 0xEC, CHR 0x9D,
      CHR 0x84, CHR 0x20, CHR 0xEA, CHR 0xB5, CHR 0xAC, CHR 0xED, CHR 0x95, CHR 0x98,
      CHR 0xEC, CHR 0x84, CHR 0xB8, CHR 0xEC, CHR 0x9A, CHR 0x94, CHR 0x2E]"

text \<open>
  Lines 67 to 83 and, word for word again, lines 104 to 121: the choices block, then the
  template chosen by the truth value of \<open>question_plus\<close> (\<open>None\<close> and the empty
  string are false).
\<close>

definition user_message :: "formatter \<Rightarrow> string \<Rightarrow> string \<Rightarrow> exam_record \<Rightarrow> py_error + string" where
  "user_message fmt q_plus no_q_plus r =
     (let choices_str = choices_string (rec_choices r);
          without = fmt no_q_plus
            [(''paragraph'', rec_paragraph r), (''question'', rec_question r),
             (''choices'', choices_str)]
      in case rec_question_plus r of
           None \<Rightarrow> without
         | Some qp \<Rightarrow>
             if qp \<noteq> [] then
               fmt q_plus
                 [(''paragraph'', rec_paragraph r), (''question'', rec_question r),
                  (''question_plus'', qp), (''choices'', choices_str)]
             else without)"

text \<open>A \<open>for\<close> loop that appends one result per element and stops at the first
  exception.\<close>

fun collect :: "('a \<Rightarrow> py_error + 'b) \<Rightarrow> 'a list \<Rightarrow> py_error + 'b list" where
  "collect f [] = Inr []"
| "collect f (x # xs) =
     (case f x of
        Inl e \<Rightarrow> Inl e
      | Inr y \<Rightarrow> (case collect f xs of Inl e \<Rightarrow> Inl e | Inr ys \<Rightarrow> Inr (y # ys)))"

text \<open>\<open>f"{answer}"\<close> for the optional answer of a record.\<close>

definition fstr_answer :: "int option \<Rightarrow> string" where
  "fstr_answer a = (case a of None \<Rightarrow> ''None'' | Some i \<Rightarrow> str_int i)"

record processed_example =
  ex_id :: string
  ex_messages :: "prompt_message list"
  ex_label :: "int option"

definition train_example :: "formatter \<Rightarrow> string \<Rightarrow> string \<Rightarrow> exam_record \<Rightarrow> py_error + processed_example" where
  "train_example fmt q_plus no_q_plus r =
     (case user_message fmt q_plus no_q_plus r of
        Inl e \<Rightarrow> Inl e
      | Inr um \<Rightarrow>
          Inr \<lparr>ex_id = rec_id r,
               ex_messages =
                 [\<lparr>msg_role = System, msg_content = system_instruction\<rparr>,
                  \<lparr>msg_role = User, msg_content = um\<rparr>,
                  \<lparr>msg_role = Assistant, msg_content = fstr_answer (rec_answer r)\<rparr>],
               ex_label = rec_answer r\<rparr>)"

definition train_df_to_process_df ::
    "formatter \<Rightarrow> exam_record list \<Rightarrow> string \<Rightarrow> string \<Rightarrow> py_error + processed_example list" where
  "train_df_to_process_df fmt dataset q_plus no_q_plus =
     collect (train_example fmt q_plus no_q_plus) dataset"

record inference_item =
  item_id :: string
  item_messages :: "prompt_message list"
  item_label :: "int option"
  len_choices :: nat

definition test_item :: "formatter \<Rightarrow> string \<Rightarrow> string \<Rightarrow> exam_record \<Rightarrow> py_error + inference_item" where
  "test_item fmt q_plus no_q_plus row =
     (case user_message fmt q_plus no_q_plus row of
        Inl e \<Rightarrow> Inl e
      | Inr um \<Rightarrow>
          Inr \<lparr>item_id = rec_id row,
               item_messages =
                 [\<lparr>msg_role = System, msg_content = system_instruction\<rparr>,
                  \<lparr>msg_role = User, msg_content = um\<rparr>],
               item_label = rec_answer row,
               len_choices = length (rec_choices row)\<rparr>)"

definition test_df_to_process_df ::
    "formatter \<Rightarrow> exam_record list \<Rightarrow> string \<Rightarrow> string \<Rightarrow> py_error + inference_item list" where
  "test_df_to_process_df fmt dataset q_plus no_q_plus =
     collect (test_item fmt q_plus no_q_plus) dataset"

text \<open>
  A formatter to run the builder on concrete templates: the fragment of \<open>str.format\<close>
  with replacement fields that are plain keyword names, and \<open>{{\<close> and \<open>}}\<close> for the
  braces themselves. A field with no name or a number asks for a positional argument
  (there is none); conversions, format specifications and attribute or index lookups are
  outside the fragment.
\<close>

datatype format_state = Literal | Opened | Field string | Closed

fun format_from :: "format_state \<Rightarrow> string \<Rightarrow> (string \<times> string) list \<Rightarrow> string \<Rightarrow> py_error + string" where
  "format_from Literal out kw [] = Inr out"
| "format_from Literal out kw (c # cs) =
     (if c = CHR ''{'' then format_from Opened out kw cs
      else if c = CHR ''}'' then format_from Closed out kw cs
      else format_from Literal (out @ [c]) kw cs)"
| "format_from Opened out kw [] = Inl ValueError"
| "format_from Opened out kw (c # cs) =
     (if c = CHR ''{'' then format_from Literal (out @ [c]) kw cs
      else if c = CHR ''}'' then Inl IndexError
      else format_from (Field [c]) out kw cs)"
| "format_from (Field name) out kw [] = Inl ValueError"
| "format_from (Field name) out kw (c # cs) =
     (if c = CHR ''}'' then
        (if set name \<subseteq> set ''0123456789'' then Inl IndexError
         else if set name \<inter> set ''.[!:{'' \<noteq> {} then Inl (OtherError ''outside the fragment'')
         else (case map_of kw name of
                 None \<Rightarrow> Inl (KeyError name)
               | Some v \<Rightarrow> format_from Literal (out @ v) kw cs))
      else format_from (Field (name @ [c])) out kw cs)"
| "format_from Closed out kw [] = Inl ValueError"
| "format_from Closed out kw (c # cs) =
     (if c = CHR ''}'' then format_from Literal (out @ [c]) kw cs else Inl ValueError)"

definition format_fields :: formatter where
  "format_fields template kw = format_from Literal [] kw template"

section \<open>Record Normalizer\<close>

text \<open>
  A row of the input table, and the record \<open>record_to_df\<close> (lines 44 to 61) builds from
  it. \<open>ast.literal_eval\<close> is the parameter \<open>literal_eval\<close>: \<open>None\<close> when the text
  cannot be decoded. The fields read from the decoded dictionary are stored as they are.
\<close>

record raw_row =
  row_id :: string
  row_paragraph :: string
  row_problems :: string

record df_record =
  df_id :: string
  df_paragraph :: string
  df_question :: pyval
  df_choices :: pyval
  df_answer :: pyval
  df_question_plus :: pyval

text \<open>\<open>problems[key]\<close>: only a dictionary can be indexed by a string.\<close>

definition py_getitem :: "pyval \<Rightarrow> string \<Rightarrow> py_error + pyval" where
  "py_getitem v key =
     (case v of
        PDict d \<Rightarrow> (case map_of d (PStr key) of None \<Rightarrow> Inl (KeyError key) | Some x \<Rightarrow> Inr x)
      | _ \<Rightarrow> Inl TypeError)"

text \<open>\<open>problems.get(key, None)\<close>.\<close>

definition py_get :: "pyval \<Rightarrow> string \<Rightarrow> py_error + pyval" where
  "py_get v key =
     (case v of
        PDict d \<Rightarrow> Inr (case map_of d (PStr key) of None \<Rightarrow> PNone | Some x \<Rightarrow> x)
      | _ \<Rightarrow> Inl AttributeError)"

text \<open>\<open>key in problems\<close>, for the dictionary the earlier lookups have required.\<close>

definition py_contains :: "pyval \<Rightarrow> string \<Rightarrow> py_error + bool" where
  "py_contains v key =
     (case v of
        PDict d \<Rightarrow> Inr (map_of d (PStr key) \<noteq> None)
      | _ \<Rightarrow> Inl TypeError)"

definition record_of_row :: "(string \<Rightarrow> pyval option) \<Rightarrow> raw_row \<Rightarrow> py_error + df_record" where
  "record_of_row literal_eval row =
     (case literal_eval (row_problems row) of
        None \<Rightarrow> Inl ParseError
      | Some problems \<Rightarrow>
     (case py_getitem problems ''question'' of Inl e \<Rightarrow> Inl e | Inr q \<Rightarrow>
     (case py_getitem problems ''choices'' of Inl e \<Rightarrow> Inl e | Inr c \<Rightarrow>
     (case py_get problems ''answer'' of Inl e \<Rightarrow> Inl e | Inr a \<Rightarrow>
     (case py_get problems ''question_plus'' of Inl e \<Rightarrow> Inl e | Inr qp \<Rightarrow>
        (let record = \<lparr>df_id = row_id row, df_paragraph = row_paragraph row,
                       df_question = q, df_choices = c, df_answer = a,
                       df_question_plus = qp\<rparr>
         in case py_contains problems ''question_plus'' of
              Inl e \<Rightarrow> Inl e
            | Inr False \<Rightarrow> Inr record
            | Inr True \<Rightarrow>
                (case py_getitem problems ''question_plus'' of
                   Inl e \<Rightarrow> Inl e
                 | Inr qp' \<Rightarrow> Inr (record\<lparr>df_question_plus := qp'\<rparr>))))))))"

definition record_to_df :: "(string \<Rightarrow> pyval option) \<Rightarrow> raw_row list \<Rightarrow> py_error + df_record list" where
  "record_to_df literal_eval dataset = collect (record_of_row literal_eval) dataset"

section \<open>Tokenize and Filter\<close>

record tokenized_example =
  input_ids :: "nat list"
  attention_mask :: "nat list"

text \<open>Line 244: \<open>tokenized_dataset.filter(lambda x: len(x["input_ids"]) <= mex_seq_len)\<close>.
  \<open>Dataset.filter\<close> keeps the rows on which the function is true, in their order.\<close>

definition filter_max_len :: "nat \<Rightarrow> tokenized_example list \<Rightarrow> tokenized_example list" where
  "filter_max_len mex_seq_len tokenized_dataset =
     filter (\<lambda>x. length (input_ids x) \<le> mex_seq_len) tokenized_dataset"

section \<open>Choice Scorer\<close>

text \<open>
  Logits are real numbers (the rounding of 32-bit floats is not modelled), a logits
  vector is a list indexed by vocabulary id, and \<open>tokenizer.vocab\<close> is a dictionary
  from token text to id.
\<close>

type_synonym vocab = "string \<rightharpoonup> nat"

definition vocab_lookup :: "vocab \<Rightarrow> string \<Rightarrow> py_error + nat" where
  "vocab_lookup v s = (case v s of None \<Rightarrow> Inl (KeyError s) | Some i \<Rightarrow> Inr i)"

definition py_index :: "'a list \<Rightarrow> nat \<Rightarrow> py_error + 'a" where
  "py_index xs i = (if i < length xs then Inr (xs ! i) else Inl IndexError)"

text \<open>\<open>xs[-k]\<close> for \<open>k > 0\<close>.\<close>

definition from_end :: "'a list \<Rightarrow> nat \<Rightarrow> py_error + 'a" where
  "from_end xs k = (if k \<le> length xs then Inr (xs ! (length xs - k)) else Inl IndexError)"

text \<open>Line 360:
  \<open>[logits[tokenizer.vocab[str(i + 1)]] for i in range(len_choices)]\<close>.\<close>

definition target_logit :: "vocab \<Rightarrow> real list \<Rightarrow> nat \<Rightarrow> py_error + real" where
  "target_logit v logits i =
     (case vocab_lookup v (str_nat (i + 1)) of
        Inl e \<Rightarrow> Inl e
      | Inr tok \<Rightarrow> py_index logits tok)"

definition target_logit_list :: "vocab \<Rightarrow> real list \<Rightarrow> nat \<Rightarrow> py_error + real list" where
  "target_logit_list v logits n = collect (target_logit v logits) [0..<n]"

text \<open>\<open>torch.nn.functional.softmax(t, dim=-1)\<close> on one vector.\<close>

definition softmax :: "real list \<Rightarrow> real list" where
  "softmax xs = map (\<lambda>x. exp x / sum_list (map exp xs)) xs"

text \<open>\<open>np.argmax\<close>: the first index of the largest value; an empty vector raises.\<close>

fun argmax_from :: "nat \<Rightarrow> real \<Rightarrow> nat \<Rightarrow> real list \<Rightarrow> nat" where
  "argmax_from best bv i [] = best"
| "argmax_from best bv i (x # xs) =
     (if bv < x then argmax_from i x (Suc i) xs else argmax_from best bv (Suc i) xs)"

definition argmax :: "real list \<Rightarrow> py_error + nat" where
  "argmax xs = (case xs of [] \<Rightarrow> Inl ValueError | x # rest \<Rightarrow> Inr (argmax_from 0 x 1 rest))"

text \<open>Line 330.\<close>

definition pred_choices_map :: "nat \<rightharpoonup> string" where
  "pred_choices_map = map_of [(0, ''1''), (1, ''2''), (2, ''3''), (3, ''4''), (4, ''5'')]"

text \<open>Lines 360 to 367, for the logits vector of the last position.\<close>

definition score_item :: "vocab \<Rightarrow> real list \<Rightarrow> nat \<Rightarrow> py_error + string" where
  "score_item v logits n =
     (case target_logit_list v logits n of
        Inl e \<Rightarrow> Inl e
      | Inr target \<Rightarrow>
          (case argmax (softmax target) of
             Inl e \<Rightarrow> Inl e
           | Inr k \<Rightarrow>
               (case pred_choices_map k of
                  None \<Rightarrow> Inl (KeyError (str_nat k))
                | Some digit \<Rightarrow> Inr digit)))"

text \<open>Line 358, \<open>outputs.logits[:, -1].flatten()\<close>, for the one sequence of the batch:
  the logits of its last position.\<close>

definition last_position :: "real list list \<Rightarrow> py_error + real list" where
  "last_position seq = from_end seq 1"

definition infer_answer :: "vocab \<Rightarrow> real list list \<Rightarrow> nat \<Rightarrow> py_error + string" where
  "infer_answer v output n =
     (case last_position output of Inl e \<Rightarrow> Inl e | Inr logits \<Rightarrow> score_item v logits n)"

subsection \<open>Scoring during training evaluation\<close>

text \<open>
  \<open>preprocess_logits_for_metrics\<close> (lines 256 to 261) receives the logits of a batch
  (batch, position, vocabulary), or a tuple whose first component they are. It looks up
  the ids of the five digits and takes \<open>logits[:, -2, logit_idx]\<close>.
\<close>

datatype logits_arg = Tensor "real list list list" | Tuple "real list list list list"

definition digit_tokens :: "string list" where
  "digit_tokens = [''1'', ''2'', ''3'', ''4'', ''5'']"

definition answer_row :: "nat list \<Rightarrow> real list list \<Rightarrow> py_error + real list" where
  "answer_row logit_idx seq =
     (case from_end seq 2 of
        Inl e \<Rightarrow> Inl e
      | Inr position \<Rightarrow> collect (py_index position) logit_idx)"

definition preprocess_logits_for_metrics :: "vocab \<Rightarrow> logits_arg \<Rightarrow> 'l \<Rightarrow> py_error + real list list" where
  "preprocess_logits_for_metrics v logits labels =
     (case (case logits of
              Tensor t \<Rightarrow> Inr t
            | Tuple ts \<Rightarrow> py_index ts 0) of
        Inl e \<Rightarrow> Inl e
      | Inr t \<Rightarrow>
          (case collect (vocab_lookup v) digit_tokens of
             Inl e \<Rightarrow> Inl e
           | Inr logit_idx \<Rightarrow> collect (answer_row logit_idx) t))"


section \<open>The run\<close>

text \<open>
  Lines 384 to 394. The command line is a list of words; standard input is a sequence of
  lines (\<open>None\<close> from the end of the input on), of which \<open>input\<close> reads the next. The
  loop asks again while the line is empty, and so may ask forever: not returning is
  \<open>None\<close>.
\<close>

fun index_of :: "'a list \<Rightarrow> 'a \<Rightarrow> nat option" where
  "index_of [] a = None"
| "index_of (x # xs) a = (if x = a then Some 0 else map_option Suc (index_of xs a))"

partial_function (option) prompt_run_name :: "(nat \<Rightarrow> string option) \<Rightarrow> nat \<Rightarrow> (py_error + string) option" where
  "prompt_run_name stdin i =
     (case stdin i of
        None \<Rightarrow> Some (Inl EOFError)
      | Some line \<Rightarrow> if line = [] then prompt_run_name stdin (Suc i) else Some (Inr line))"

definition resolve_run_name :: "string list \<Rightarrow> (nat \<Rightarrow> string option) \<Rightarrow> (py_error + string) option" where
  "resolve_run_name argv stdin =
     (case index_of argv ''--run_name'' of
        None \<Rightarrow> prompt_run_name stdin 0
      | Some i \<Rightarrow> Some (py_index argv (i + 1)))"

text \<open>
  What \<open>main\<close> works with: the parsed flags, the table \<open>pd.read_csv\<close> returns, the
  sampler of the data frame (\<open>dataset.sample(n, random_state=seed)\<close>), the literal
  parser, and the two stretches of library calls: \<open>prepare\<close> for lines 168 to 288
  (model, tokenizer, tokenized and split dataset) and \<open>core\<close> for the body of the
  \<open>try\<close> (lines 291 to 372).
\<close>

record 'ctx env =
  do_train :: bool
  do_eval :: bool
  read_csv :: "py_error + raw_row list"
  sample :: "nat \<Rightarrow> nat \<Rightarrow> raw_row list \<Rightarrow> py_error + raw_row list"
  literal_eval :: "string \<Rightarrow> pyval option"
  prepare :: "df_record list \<Rightarrow> py_error + 'ctx"
  core :: "'ctx \<Rightarrow> py_error + unit"

text \<open>What the run leaves behind: the name given to the experiment tracker, the errors
  logged by line 375, and the calls of \<open>torch.cuda.empty_cache\<close>.\<close>

record world =
  wandb_name :: "string option"
  error_log :: "py_error list"
  empty_cache_calls :: nat

definition SEED :: nat where
  "SEED = 2024"

definition project_prefix :: "'ctx env \<Rightarrow> string" where
  "project_prefix e = (if do_train e then ''[train]'' else if do_eval e then ''[eval]'' else ''[pred]'')"

text \<open>Lines 164 and 165.\<close>

definition load_dataset :: "'ctx env \<Rightarrow> bool \<Rightarrow> py_error + raw_row list" where
  "load_dataset e debug =
     (case read_csv e of
        Inl err \<Rightarrow> Inl err
      | Inr dataset \<Rightarrow> if debug then sample e 500 SEED dataset else Inr dataset)"

text \<open>Lines 290 to 379: \<open>except Exception\<close> logs and raises again, \<open>finally\<close> empties
  the cache on every way out.\<close>

definition run_core :: "py_error + unit \<Rightarrow> world \<Rightarrow> (py_error + unit) \<times> world" where
  "run_core outcome w =
     (case outcome of
        Inr u \<Rightarrow> (Inr u, w\<lparr>empty_cache_calls := empty_cache_calls w + 1\<rparr>)
      | Inl err \<Rightarrow>
          (Inl err,
           w\<lparr>error_log := (if is_Exception err then error_log w @ [err] else error_log w),
             empty_cache_calls := empty_cache_calls w + 1\<rparr>))"

definition main :: "'ctx env \<Rightarrow> string \<Rightarrow> bool \<Rightarrow> world \<Rightarrow> (py_error + unit) \<times> world" where
  "main e run_name debug w =
     (let w1 = w\<lparr>wandb_name := Some (project_prefix e @ ''_'' @ run_name)\<rparr> in
      case load_dataset e debug of
        Inl err \<Rightarrow> (Inl err, w1)
      | Inr dataset \<Rightarrow>
     (case record_to_df (literal_eval e) dataset of
        Inl err \<Rightarrow> (Inl err, w1)
      | Inr df \<Rightarrow>
     (case prepare e df of
        Inl err \<Rightarrow> (Inl err, w1)
      | Inr ctx \<Rightarrow> run_core (core e ctx) w1)))"

text \<open>The script run from the command line: the run name, then
  \<open>main(argv_run_name, debug=True)\<close>.\<close>

definition script :: "'ctx env \<Rightarrow> string list \<Rightarrow> (nat \<Rightarrow> string option) \<Rightarrow> world \<Rightarrow> ((py_error + unit) \<times> world) option" where
  "script e argv stdin w =
     (case resolve_run_name argv stdin of
        None \<Rightarrow> None
      | Some (Inl err) \<Rightarrow> Some (Inl err, w)
      | Some (Inr run_name) \<Rightarrow> Some (main e run_name True w))"

section \<open>Example inputs\<close>

text \<open>A vocabulary that gives the digits the ids 0 to 4, for running the scorer on
  concrete logits.\<close>

definition demo_vocab :: vocab where
  "demo_vocab = map_of [(''1'', 0), (''2'', 1), (''3'', 2), (''4'', 3), (''5'', 4)]"

text \<open>A record with two choices and no \<open>question_plus\<close>, and two templates.\<close>

definition demo_record :: exam_record where
  "demo_record =
     \<lparr>rec_id = ''id-1'', rec_paragraph = ''P'', rec_question = ''Q'',
      rec_choices = [''A'', ''B''], rec_answer = Some 2, rec_question_plus = None\<rparr>"

definition demo_q_plus :: string where
  "demo_q_plus = ''{question_plus} {choices}''"

definition demo_no_q_plus :: string where
  "demo_no_q_plus = ''{question} {choices}''"

text \<open>A literal parser that knows one text, and a row that carries it.\<close>

definition demo_literal_eval :: "string \<Rightarrow> pyval option" where
  "demo_literal_eval =
     map_of
       [(''{'question': 'q', 'choices': ['a', 'b'], 'answer': 2}'',
         PDict [(PStr ''question'', PStr ''q''),
                (PStr ''choices'', PList [PStr ''a'', PStr ''b'']),
                (PStr ''answer'', PInt 2)])]"

definition demo_row :: raw_row where
  "demo_row =
     \<lparr>row_id = ''id-1'', row_paragraph = ''P'',
      row_problems = ''{'question': 'q', 'choices': ['a', 'b'], 'answer': 2}''\<rparr>"

text \<open>
  A run to evaluate: a table of 500 copies of the row, a sampler that takes the first
  \<open>n\<close> rows and raises \<open>ValueError\<close> when the table has fewer (the data frame's
  sampler draws its rows at random; the count is what matters here), a context that is
  the number of records, and an empty try body. Standard input holds one empty line and
  then the line \<open>run1\<close>.
\<close>

definition demo_sample :: "nat \<Rightarrow> nat \<Rightarrow> raw_row list \<Rightarrow> py_error + raw_row list" where
  "demo_sample n seed dataset = (if n \<le> length dataset then Inr (take n dataset) else Inl ValueError)"

definition demo_env :: "nat env" where
  "demo_env =
     \<lparr>do_train = False, do_eval = False, read_csv = Inr (replicate 500 demo_row),
      sample = demo_sample, literal_eval = demo_literal_eval,
      prepare = (\<lambda>df. Inr (length df)), core = (\<lambda>ctx. Inr ())\<rparr>"

definition demo_stdin :: "nat \<Rightarrow> string option" where
  "demo_stdin i = (if i = 0 then Some [] else if i = 1 then Some ''run1'' else None)"

definition demo_world :: world where
  "demo_world = \<lparr>wandb_name = None, error_log = [], empty_cache_calls = 0\<rparr>"

section \<open>Loops, digits and lines\<close>

lemma collect_Inr_iff:
  "collect f xs = Inr ys \<longleftrightarrow> list_all2 (\<lambda>x y. f x = Inr y) xs ys"
proof (induction xs arbitrary: ys)
  case Nil
  then show ?case by auto
next
  case (Cons x xs)
  show ?case
    by (auto simp: list_all2_Cons1 Cons.IH[symmetric] split: sum.splits)
qed

lemma collect_Inr_nth:
  assumes "collect f xs = Inr ys"
  shows "length ys = length xs" and "i < length xs \<Longrightarrow> f (xs ! i) = Inr (ys ! i)"
  using assms by (auto simp: collect_Inr_iff list_all2_conv_all_nth)

lemma collect_map_Inr:
  "(\<And>x. x \<in> set xs \<Longrightarrow> f x = Inr (g x)) \<Longrightarrow> collect f xs = Inr (map g xs)"
  by (induction xs) auto

lemma str_nat_small:
  "str_nat 0 = ''0''" "str_nat 1 = ''1''" "str_nat 2 = ''2''" "str_nat 3 = ''3''"
  "str_nat 4 = ''4''" "str_nat 5 = ''5''"
  by (simp_all add: str_nat.simps digit_char_def)

lemma str_nat_Suc_small:
  "str_nat (Suc 0) = ''1''" "str_nat (Suc (Suc 0)) = ''2''" "str_nat (Suc (Suc (Suc 0))) = ''3''"
  "str_nat (Suc (Suc (Suc (Suc 0)))) = ''4''" "str_nat (Suc (Suc (Suc (Suc (Suc 0))))) = ''5''"
  using str_nat_small by (simp_all add: eval_nat_numeral)

lemma split_on_no_sep: "c \<notin> set s \<Longrightarrow> split_on c s = [s]"
  by (induction s) auto

lemma split_on_append: "c \<notin> set s \<Longrightarrow> split_on c (s @ c # t) = s # split_on c t"
  by (induction s) auto

lemma split_on_join:
  "xs \<noteq> [] \<Longrightarrow> \<forall>x\<in>set xs. c \<notin> set x \<Longrightarrow> split_on c (join [c] xs) = xs"
proof (induction "[c]" xs rule: join.induct)
  case 1
  then show ?case by simp
next
  case (2 x)
  then show ?case by (simp add: split_on_no_sep)
next
  case (3 x y ys)
  then show ?case by (simp add: split_on_append)
qed

lemma digit_char_not_newline: "digit_char d \<noteq> newline"
proof -
  have "digit_char d \<in> set ''0123456789''"
    unfolding digit_char_def by (rule nth_mem) simp
  moreover have "newline \<notin> set ''0123456789''"
    by (simp add: newline_def)
  ultimately show ?thesis by metis
qed

lemma str_nat_no_newline: "newline \<notin> set (str_nat n)"
proof (induction n rule: str_nat.induct)
  case (1 n)
  then show ?case
    by (subst str_nat.simps) (auto simp: digit_char_not_newline[symmetric])
qed

lemma choice_line_no_newline: "newline \<notin> set c \<Longrightarrow> newline \<notin> set (choice_line (i, c))"
proof -
  have "newline \<notin> set '' - ''" by (simp add: newline_def)
  then show "newline \<notin> set c \<Longrightarrow> newline \<notin> set (choice_line (i, c))"
    by (simp add: choice_line_def str_nat_no_newline)
qed

lemma map_choice_line_enumerate:
  "map choice_line (enumerate 0 cs) = map (\<lambda>i. str_nat (i + 1) @ '' - '' @ cs ! i) [0..<length cs]"
  by (rule nth_equalityI) (simp_all add: choice_line_def nth_enumerate_eq)

lemma lines_of_choices_string:
  assumes "cs \<noteq> []" and "\<forall>c\<in>set cs. newline \<notin> set c"
  shows "lines_of (choices_string cs) = map choice_line (enumerate 0 cs)"
proof -
  have "\<forall>l\<in>set (map choice_line (enumerate 0 cs)). newline \<notin> set l"
  proof
    fix l assume "l \<in> set (map choice_line (enumerate 0 cs))"
    then obtain i c where l: "l = choice_line (i, c)" and "(i, c) \<in> set (enumerate 0 cs)"
      by auto
    then have "c \<in> set cs"
      by (auto simp: enumerate_eq_zip dest: set_zip_rightD)
    with assms(2) show "newline \<notin> set l"
      unfolding l by (intro choice_line_no_newline) simp
  qed
  moreover have "map choice_line (enumerate 0 cs) \<noteq> []"
    using assms(1) by (cases cs) simp_all
  ultimately show ?thesis
    unfolding lines_of_def choices_string_def by (intro split_on_join)
qed

section \<open>The choices block\<close>

text \<open>
  Claim C2, as the code has it. The choices block is the newline-join of exactly
  \<open>len(choices)\<close> entries, entry \<open>i\<close> (counted from 0) being the decimal \<open>i + 1\<close>, the
  text \<open>" - "\<close> and choice \<open>i\<close>, in the order of the input. When there is at least one
  choice and no choice text contains a newline, the lines of the block are these entries,
  so the block has \<open>len(choices)\<close> lines.
\<close>

theorem choices_block_lines:
  "choices_string choices =
     join [newline] (map (\<lambda>i. str_nat (i + 1) @ '' - '' @ choices ! i) [0..<length choices])
   \<and> (choices \<noteq> [] \<and> (\<forall>c\<in>set choices. newline \<notin> set c) \<longrightarrow>
        lines_of (choices_string choices) =
          map (\<lambda>i. str_nat (i + 1) @ '' - '' @ choices ! i) [0..<length choices]
        \<and> length (lines_of (choices_string choices)) = length choices)"
proof (intro conjI impI)
  show "choices_string choices =
     join [newline] (map (\<lambda>i. str_nat (i + 1) @ '' - '' @ choices ! i) [0..<length choices])"
    by (simp only: choices_string_def map_choice_line_enumerate)
next
  assume a: "choices \<noteq> [] \<and> (\<forall>c\<in>set choices. newline \<notin> set c)"
  then have l: "lines_of (choices_string choices) = map choice_line (enumerate 0 choices)"
    by (intro lines_of_choices_string) simp_all
  show "lines_of (choices_string choices) =
          map (\<lambda>i. str_nat (i + 1) @ '' - '' @ choices ! i) [0..<length choices]"
    by (simp only: l map_choice_line_enumerate)
  show "length (lines_of (choices_string choices)) = length choices"
    by (simp add: l)
qed

text \<open>The example of the specification: four choices A, B, C, D give the four lines
  \<open>1 - A\<close>, \<open>2 - B\<close>, \<open>3 - C\<close>, \<open>4 - D\<close>.\<close>

theorem choices_block_lines_witness:
  "choices_string [''A'', ''B'', ''C'', ''D''] = ''1 - A\<newline>2 - B\<newline>3 - C\<newline>4 - D''
   \<and> lines_of (choices_string [''A'', ''B'', ''C'', ''D'']) = [''1 - A'', ''2 - B'', ''3 - C'', ''4 - D'']
   \<and> length (lines_of (choices_string [''A'', ''B'', ''C'', ''D''])) = 4"
proof -
  let ?cs = "[''A'', ''B'', ''C'', ''D'']"
  let ?entries = "[''1 - A'', ''2 - B'', ''3 - C'', ''4 - D'']"
  have nl: "?cs \<noteq> [] \<and> (\<forall>c\<in>set ?cs. newline \<notin> set c)"
    by (simp add: newline_def)
  have m: "map (\<lambda>i. str_nat (i + 1) @ '' - '' @ ?cs ! i) [0..<length ?cs] = ?entries"
    by (simp add: upt_rec str_nat_Suc_small)
  have j: "join [newline] ?entries = ''1 - A\<newline>2 - B\<newline>3 - C\<newline>4 - D''"
    by (simp add: newline_def)
  note t = choices_block_lines [of ?cs]
  from t have "choices_string ?cs =
      join [newline] (map (\<lambda>i. str_nat (i + 1) @ '' - '' @ ?cs ! i) [0..<length ?cs])"
    by (rule conjunct1)
  then have a: "choices_string ?cs = ''1 - A\<newline>2 - B\<newline>3 - C\<newline>4 - D''"
    by (simp only: m j)
  from t nl have "lines_of (choices_string ?cs) =
       map (\<lambda>i. str_nat (i + 1) @ '' - '' @ ?cs ! i) [0..<length ?cs]
     \<and> length (lines_of (choices_string ?cs)) = length ?cs"
    by blast
  then have b: "lines_of (choices_string ?cs) = ?entries"
    and c: "length (lines_of (choices_string ?cs)) = 4"
    by (simp_all only: m) simp_all
  from a b c show ?thesis
    by (intro conjI)
qed

text \<open>A choice text with a newline in it: two choices render as three lines, the second
  of which is not an entry of the enumeration.\<close>

theorem choices_block_lines_counterexample:
  "lines_of (choices_string [''a\<newline>b'', ''c'']) = [''1 - a'', ''b'', ''2 - c'']
   \<and> length (lines_of (choices_string [''a\<newline>b'', ''c''])) \<noteq> length [''a\<newline>b'', ''c'']"
  by (simp add: lines_of_def choices_string_def enumerate_eq_zip choice_line_def
      str_nat_Suc_small upt_rec newline_def)

section \<open>The Choice Scorer\<close>

lemma sum_exp_pos: "xs \<noteq> [] \<Longrightarrow> 0 < sum_list (map exp (xs :: real list))"
proof (cases xs)
  case Nil
  assume "xs \<noteq> []"
  with Nil show ?thesis by simp
next
  case (Cons x rest)
  have "0 \<le> sum_list (map exp rest)"
    by (rule sum_list_nonneg) auto
  then show ?thesis
    unfolding Cons by (simp add: add_pos_nonneg)
qed






lemma sum_list_softmax: "xs \<noteq> [] \<Longrightarrow> sum_list (softmax xs) = 1"
proof -
  assume "xs \<noteq> []"
  then have pos: "0 < sum_list (map exp xs)"
    by (rule sum_exp_pos)
  have gen: "sum_list (map (\<lambda>x. exp x / c) ys) = sum_list (map exp ys) / c" for c :: real and ys
    by (induction ys) (simp_all add: add_divide_distrib)
  have "sum_list (softmax xs) = sum_list (map exp xs) / sum_list (map exp xs)"
    unfolding softmax_def by (rule gen)
  then show ?thesis using pos by simp
qed











section \<open>Filtering by length\<close>

text \<open>
  Claim C3. Filtering with the maximum length \<open>L\<close> keeps exactly the examples at the
  positions whose \<open>input_ids\<close> have at most \<open>L\<close> tokens, in increasing order of position:
  an example is in the result as often as it stands at such positions, every longer
  example is gone, and the result is a subsequence of the dataset.
\<close>

theorem filter_max_len_exact:
  "filter_max_len L ds = nths ds {i. i < length ds \<and> length (input_ids (ds ! i)) \<le> L}
   \<and> (\<forall>x. count_list (filter_max_len L ds) x =
          (if length (input_ids x) \<le> L then count_list ds x else 0))
   \<and> subseq (filter_max_len L ds) ds"
proof (intro conjI allI)
  show "filter_max_len L ds = nths ds {i. i < length ds \<and> length (input_ids (ds ! i)) \<le> L}"
    by (simp add: filter_max_len_def filter_eq_nths)
  show "subseq (filter_max_len L ds) ds"
    by (simp add: filter_max_len_def)
  fix x
  show "count_list (filter_max_len L ds) x =
          (if length (input_ids x) \<le> L then count_list ds x else 0)"
    unfolding filter_max_len_def by (induction ds) auto
qed

section \<open>The position scored during training evaluation\<close>

lemma collect_Inl: "collect f xs = Inl e \<Longrightarrow> \<exists>x\<in>set xs. f x = Inl e"
  by (induction xs) (auto split: sum.splits)

lemma answer_row_ok:
  assumes "2 \<le> length seq" and "\<forall>tok\<in>set idx. tok < length (seq ! (length seq - 2))"
  shows "answer_row idx seq = Inr (map (\<lambda>tok. seq ! (length seq - 2) ! tok) idx)"
  using assms by (simp add: answer_row_def from_end_def collect_map_Inr py_index_def)

lemma digit_ids_ok:
  assumes "\<forall>d\<in>set digit_tokens. v d \<noteq> None"
  shows "collect (vocab_lookup v) digit_tokens = Inr (map (\<lambda>d. the (v d)) digit_tokens)"
  using assms by (intro collect_map_Inr) (auto simp: vocab_lookup_def)

text \<open>
  Claim C5. When the vocabulary has the five digits and every sequence of the batch has at
  least two positions wide enough for their ids, \<open>preprocess_logits_for_metrics\<close> returns,
  for every sequence, the logits of the five digits at position \<open>length - 2\<close>; nothing
  else of the sequence enters the result. A sequence with fewer than two positions raises
  \<open>IndexError\<close>. When the logits come as a tuple (line 257) its first component is
  scored in the same way, whatever the other components are; an empty tuple raises
  \<open>IndexError\<close>.
\<close>

theorem preprocess_uses_second_to_last:
  "((\<forall>d\<in>set digit_tokens. v d \<noteq> None) \<and>
    (\<forall>seq\<in>set batch. 2 \<le> length seq \<and>
        (\<forall>d\<in>set digit_tokens. the (v d) < length (seq ! (length seq - 2)))) \<longrightarrow>
      preprocess_logits_for_metrics v (Tensor batch) labels =
        Inr (map (\<lambda>seq. map (\<lambda>d. seq ! (length seq - 2) ! the (v d)) digit_tokens) batch))
   \<and> ((\<forall>d\<in>set digit_tokens. v d \<noteq> None) \<and> (\<exists>seq\<in>set batch. length seq < 2) \<longrightarrow>
        preprocess_logits_for_metrics v (Tensor batch) labels = Inl IndexError)
   \<and> preprocess_logits_for_metrics v (Tuple (batch # others)) labels =
        preprocess_logits_for_metrics v (Tensor batch) labels
   \<and> ((\<forall>d\<in>set digit_tokens. v d \<noteq> None) \<and>
       (\<forall>seq\<in>set batch. 2 \<le> length seq \<and>
           (\<forall>d\<in>set digit_tokens. the (v d) < length (seq ! (length seq - 2)))) \<longrightarrow>
         preprocess_logits_for_metrics v (Tuple (batch # others)) labels =
           Inr (map (\<lambda>seq. map (\<lambda>d. seq ! (length seq - 2) ! the (v d)) digit_tokens) batch))
   \<and> ((\<forall>d\<in>set digit_tokens. v d \<noteq> None) \<and> (\<exists>seq\<in>set batch. length seq < 2) \<longrightarrow>
        preprocess_logits_for_metrics v (Tuple (batch # others)) labels = Inl IndexError)
   \<and> preprocess_logits_for_metrics v (Tuple []) labels = Inl IndexError"
proof -
  have tensor_ok: "preprocess_logits_for_metrics v (Tensor batch) labels =
        Inr (map (\<lambda>seq. map (\<lambda>d. seq ! (length seq - 2) ! the (v d)) digit_tokens) batch)"
    if a: "(\<forall>d\<in>set digit_tokens. v d \<noteq> None) \<and>
      (\<forall>seq\<in>set batch. 2 \<le> length seq \<and>
        (\<forall>d\<in>set digit_tokens. the (v d) < length (seq ! (length seq - 2))))"
  proof -
    let ?idx = "map (\<lambda>d. the (v d)) digit_tokens"
    have idx: "collect (vocab_lookup v) digit_tokens = Inr ?idx"
      using a by (intro digit_ids_ok) simp
    have "collect (answer_row ?idx) batch =
        Inr (map (\<lambda>seq. map (\<lambda>tok. seq ! (length seq - 2) ! tok) ?idx) batch)"
    proof (rule collect_map_Inr)
      fix seq assume "seq \<in> set batch"
      with a show "answer_row ?idx seq = Inr (map (\<lambda>tok. seq ! (length seq - 2) ! tok) ?idx)"
        by (intro answer_row_ok) auto
    qed
    then show ?thesis
      by (simp add: preprocess_logits_for_metrics_def idx comp_def)
  qed
  have tensor_short: "preprocess_logits_for_metrics v (Tensor batch) labels = Inl IndexError"
    if b: "(\<forall>d\<in>set digit_tokens. v d \<noteq> None) \<and> (\<exists>seq\<in>set batch. length seq < 2)"
  proof -
    let ?idx = "map (\<lambda>d. the (v d)) digit_tokens"
    have idx: "collect (vocab_lookup v) digit_tokens = Inr ?idx"
      using b by (intro digit_ids_ok) simp
    have short: "length seq < 2 \<Longrightarrow> answer_row ?idx seq = Inl IndexError" for seq
      by (simp add: answer_row_def from_end_def)
    have ne: "answer_row ?idx seq \<noteq> Inl e" if "e \<noteq> IndexError" for seq e
      using that
      by (auto simp: answer_row_def from_end_def py_index_def
          split: sum.splits if_splits dest!: collect_Inl)
    have "\<exists>seq\<in>set xs. length seq < 2 \<Longrightarrow> collect (answer_row ?idx) xs = Inl IndexError" for xs
    proof (induction xs)
      case Nil
      then show ?case by simp
    next
      case (Cons x xs)
      show ?case
      proof (cases "answer_row ?idx x")
        case (Inl e)
        then show ?thesis using ne[of e x] by auto
      next
        case (Inr y)
        then have "\<not> length x < 2" using short[of x] by auto
        with Cons Inr show ?thesis by auto
      qed
    qed
    with b show ?thesis
      by (simp add: preprocess_logits_for_metrics_def idx)
  qed
  have tuple: "preprocess_logits_for_metrics v (Tuple (batch # others)) labels =
        preprocess_logits_for_metrics v (Tensor batch) labels"
    by (simp add: preprocess_logits_for_metrics_def py_index_def)
  have empty: "preprocess_logits_for_metrics v (Tuple []) labels = Inl IndexError"
    by (simp add: preprocess_logits_for_metrics_def py_index_def)
  show ?thesis
    using tensor_ok tensor_short empty unfolding tuple by (intro conjI impI refl)
qed

text \<open>A sequence of three positions is scored at its second, alone or as the first
  component of a tuple; a sequence of one position cannot be scored.\<close>

theorem preprocess_uses_second_to_last_witness:
  "preprocess_logits_for_metrics demo_vocab
      (Tensor [[[9, 9, 9, 9, 9], [1, 2, 3, 4, 5], [7, 7, 7, 7, 7]]]) () = Inr [[1, 2, 3, 4, 5]]
   \<and> preprocess_logits_for_metrics demo_vocab (Tensor [[[1, 2, 3, 4, 5]]]) () = Inl IndexError
   \<and> preprocess_logits_for_metrics demo_vocab
      (Tuple [[[[9, 9, 9, 9, 9], [1, 2, 3, 4, 5], [7, 7, 7, 7, 7]]], [[[0]]]]) () = Inr [[1, 2, 3, 4, 5]]
   \<and> preprocess_logits_for_metrics demo_vocab (Tuple [[[[1, 2, 3, 4, 5]]], [[[0]]]]) () = Inl IndexError"
proof -
  have v: "\<forall>d\<in>set digit_tokens. demo_vocab d \<noteq> None"
    by (simp add: digit_tokens_def demo_vocab_def)
  let ?batch = "[[[9, 9, 9, 9, 9], [1, 2, 3, 4, 5], [7, 7, 7, 7, 7 :: real]]]"
  have w: "\<forall>seq\<in>set ?batch. 2 \<le> length seq \<and>
        (\<forall>d\<in>set digit_tokens. the (demo_vocab d) < length (seq ! (length seq - 2)))"
    by (simp add: digit_tokens_def demo_vocab_def)
  have m: "map (\<lambda>seq. map (\<lambda>d. seq ! (length seq - 2) ! the (demo_vocab d)) digit_tokens) ?batch
      = [[1, 2, 3, 4, 5]]"
    by (simp add: digit_tokens_def demo_vocab_def)
  note t = preprocess_uses_second_to_last [of demo_vocab ?batch "()" "[[[[0]]]]"]
  note u = preprocess_uses_second_to_last [of demo_vocab "[[[1, 2, 3, 4, 5]]]" "()" "[[[[0]]]]"]
  from t v w
  have "preprocess_logits_for_metrics demo_vocab (Tensor ?batch) () =
      Inr (map (\<lambda>seq. map (\<lambda>d. seq ! (length seq - 2) ! the (demo_vocab d)) digit_tokens) ?batch)"
    by blast
  then have a: "preprocess_logits_for_metrics demo_vocab (Tensor ?batch) () = Inr [[1, 2, 3, 4, 5]]"
    by (simp only: m)
  have s: "\<exists>seq\<in>set [[[1, 2, 3, 4, 5 :: real]]]. length seq < 2"
    by simp
  from u v s
  have b: "preprocess_logits_for_metrics demo_vocab (Tensor [[[1, 2, 3, 4, 5]]]) () = Inl IndexError"
    by blast
  from t v w
  have "preprocess_logits_for_metrics demo_vocab (Tuple [?batch, [[[0]]]]) () =
      Inr (map (\<lambda>seq. map (\<lambda>d. seq ! (length seq - 2) ! the (demo_vocab d)) digit_tokens) ?batch)"
    by blast
  then have c: "preprocess_logits_for_metrics demo_vocab (Tuple [?batch, [[[0]]]]) () = Inr [[1, 2, 3, 4, 5]]"
    by (simp only: m)
  from u v s
  have d: "preprocess_logits_for_metrics demo_vocab (Tuple [[[[1, 2, 3, 4, 5]]], [[[0]]]]) () = Inl IndexError"
    by blast
  from a b c d show ?thesis
    by (intro conjI)
qed

section \<open>The message sequences\<close>

lemma user_message_demo:
  "user_message format_fields demo_q_plus demo_no_q_plus demo_record = Inr ''Q 1 - A\<newline>2 - B''"
  by (simp add: user_message_def demo_record_def demo_no_q_plus_def format_fields_def
      choices_string_def enumerate_eq_zip choice_line_def str_nat_Suc_small upt_rec newline_def)

lemma train_example_Inr:
  "train_example fmt q_plus no_q_plus r = Inr ex \<Longrightarrow>
     map msg_role (ex_messages ex) = [System, User, Assistant]
     \<and> last (ex_messages ex) = \<lparr>msg_role = Assistant, msg_content = fstr_answer (rec_answer r)\<rparr>"
  by (auto simp: train_example_def split: sum.splits)

lemma test_item_Inr:
  "test_item fmt q_plus no_q_plus r = Inr item \<Longrightarrow>
     map msg_role (item_messages item) = [System, User]
     \<and> user_message fmt q_plus no_q_plus r = Inr (msg_content (last (item_messages item)))"
  by (auto simp: test_item_def split: sum.splits)

text \<open>
  Claim C6. Every training example is the system turn, the user turn and an assistant
  turn whose content is \<open>f"{answer}"\<close>, the decimal text of the answer index; every
  inference item is the system turn and the user turn, with no assistant turn. The user
  turn carries the rendered template in both.
\<close>

theorem message_sequences:
  "(\<forall>out. train_df_to_process_df fmt dataset q_plus no_q_plus = Inr out \<longrightarrow>
      length out = length dataset
      \<and> (\<forall>i<length dataset.
            map msg_role (ex_messages (out ! i)) = [System, User, Assistant]
            \<and> last (ex_messages (out ! i)) =
                \<lparr>msg_role = Assistant, msg_content = fstr_answer (rec_answer (dataset ! i))\<rparr>))
   \<and> (\<forall>items. test_df_to_process_df fmt dataset q_plus no_q_plus = Inr items \<longrightarrow>
      length items = length dataset
      \<and> (\<forall>i<length dataset.
            map msg_role (item_messages (items ! i)) = [System, User]
            \<and> user_message fmt q_plus no_q_plus (dataset ! i) =
                Inr (msg_content (last (item_messages (items ! i))))))
   \<and> (\<forall>a. fstr_answer (Some a) = str_int a)"
proof (intro conjI allI impI)
  fix out assume o: "train_df_to_process_df fmt dataset q_plus no_q_plus = Inr out"
  then have c: "collect (train_example fmt q_plus no_q_plus) dataset = Inr out"
    by (simp add: train_df_to_process_df_def)
  show "length out = length dataset"
    using c by (rule collect_Inr_nth(1))
  fix i assume "i < length dataset"
  with c have "train_example fmt q_plus no_q_plus (dataset ! i) = Inr (out ! i)"
    by (rule collect_Inr_nth(2))
  then have ab: "map msg_role (ex_messages (out ! i)) = [System, User, Assistant]
            \<and> last (ex_messages (out ! i)) =
                \<lparr>msg_role = Assistant, msg_content = fstr_answer (rec_answer (dataset ! i))\<rparr>"
    by (rule train_example_Inr)
  from ab show "map msg_role (ex_messages (out ! i)) = [System, User, Assistant]"
    by (rule conjunct1)
  from ab show "last (ex_messages (out ! i)) =
      \<lparr>msg_role = Assistant, msg_content = fstr_answer (rec_answer (dataset ! i))\<rparr>"
    by (rule conjunct2)
next
  fix items assume o: "test_df_to_process_df fmt dataset q_plus no_q_plus = Inr items"
  then have c: "collect (test_item fmt q_plus no_q_plus) dataset = Inr items"
    by (simp add: test_df_to_process_df_def)
  show "length items = length dataset"
    using c by (rule collect_Inr_nth(1))
  fix i assume "i < length dataset"
  with c have "test_item fmt q_plus no_q_plus (dataset ! i) = Inr (items ! i)"
    by (rule collect_Inr_nth(2))
  then have ab: "map msg_role (item_messages (items ! i)) = [System, User]
            \<and> user_message fmt q_plus no_q_plus (dataset ! i) =
                Inr (msg_content (last (item_messages (items ! i))))"
    by (rule test_item_Inr)
  from ab show "map msg_role (item_messages (items ! i)) = [System, User]"
    by (rule conjunct1)
  from ab show "user_message fmt q_plus no_q_plus (dataset ! i) =
      Inr (msg_content (last (item_messages (items ! i))))"
    by (rule conjunct2)
next
  fix a show "fstr_answer (Some a) = str_int a"
    by (simp add: fstr_answer_def)
qed

text \<open>The record with the answer 2: the training example ends with the assistant turn
  \<open>2\<close>, the inference item with the user turn.\<close>

theorem message_sequences_witness:
  "(\<exists>out. train_df_to_process_df format_fields [demo_record] demo_q_plus demo_no_q_plus = Inr out
      \<and> map msg_role (ex_messages (out ! 0)) = [System, User, Assistant]
      \<and> last (ex_messages (out ! 0)) = \<lparr>msg_role = Assistant, msg_content = ''2''\<rparr>)
   \<and> (\<exists>items. test_df_to_process_df format_fields [demo_record] demo_q_plus demo_no_q_plus = Inr items
      \<and> map msg_role (item_messages (items ! 0)) = [System, User]
      \<and> msg_content (last (item_messages (items ! 0))) = ''Q 1 - A\<newline>2 - B'')"
proof -
  note t = message_sequences [of format_fields "[demo_record]" demo_q_plus demo_no_q_plus]
  have two: "fstr_answer (rec_answer demo_record) = ''2''"
    by (simp add: fstr_answer_def demo_record_def str_int_def str_nat_small)
  obtain out where out: "train_df_to_process_df format_fields [demo_record] demo_q_plus demo_no_q_plus = Inr out"
    by (simp add: train_df_to_process_df_def train_example_def user_message_demo)
  obtain items where items: "test_df_to_process_df format_fields [demo_record] demo_q_plus demo_no_q_plus = Inr items"
    by (simp add: test_df_to_process_df_def test_item_def user_message_demo)
  from t out have "map msg_role (ex_messages (out ! 0)) = [System, User, Assistant]
      \<and> last (ex_messages (out ! 0)) =
          \<lparr>msg_role = Assistant, msg_content = fstr_answer (rec_answer ([demo_record] ! 0))\<rparr>"
    by auto
  then have a: "map msg_role (ex_messages (out ! 0)) = [System, User, Assistant]"
    "last (ex_messages (out ! 0)) = \<lparr>msg_role = Assistant, msg_content = ''2''\<rparr>"
    by (simp_all add: two)
  from t items have "map msg_role (item_messages (items ! 0)) = [System, User]
      \<and> user_message format_fields demo_q_plus demo_no_q_plus ([demo_record] ! 0) =
          Inr (msg_content (last (item_messages (items ! 0))))"
    by auto
  then have b: "map msg_role (item_messages (items ! 0)) = [System, User]"
    "msg_content (last (item_messages (items ! 0))) = ''Q 1 - A\<newline>2 - B''"
    by (simp_all add: user_message_demo)
  from out a have "\<exists>out. train_df_to_process_df format_fields [demo_record] demo_q_plus demo_no_q_plus = Inr out
      \<and> map msg_role (ex_messages (out ! 0)) = [System, User, Assistant]
      \<and> last (ex_messages (out ! 0)) = \<lparr>msg_role = Assistant, msg_content = ''2''\<rparr>"
    by (intro exI[of _ out] conjI)
  moreover from items b have "\<exists>items. test_df_to_process_df format_fields [demo_record] demo_q_plus demo_no_q_plus = Inr items
      \<and> map msg_role (item_messages (items ! 0)) = [System, User]
      \<and> msg_content (last (item_messages (items ! 0))) = ''Q 1 - A\<newline>2 - B''"
    by (intro exI[of _ items] conjI)
  ultimately show ?thesis by (rule conjI)
qed

section \<open>The Record Normalizer\<close>

lemma record_of_row_undecoded:
  "le (row_problems row) = None \<Longrightarrow> record_of_row le row = Inl ParseError"
  by (simp add: record_of_row_def)

lemma record_of_row_not_dict:
  "le (row_problems row) = Some v \<Longrightarrow> \<forall>d. v \<noteq> PDict d \<Longrightarrow> record_of_row le row = Inl TypeError"
  by (cases v) (simp_all add: record_of_row_def py_getitem_def)

lemma record_of_row_dict:
  assumes "le (row_problems row) = Some (PDict d)"
  shows "record_of_row le row =
     (case map_of d (PStr ''question'') of
        None \<Rightarrow> Inl (KeyError ''question'')
      | Some q \<Rightarrow>
          (case map_of d (PStr ''choices'') of
             None \<Rightarrow> Inl (KeyError ''choices'')
           | Some c \<Rightarrow>
               Inr \<lparr>df_id = row_id row, df_paragraph = row_paragraph row, df_question = q,
                    df_choices = c,
                    df_answer = (case map_of d (PStr ''answer'') of None \<Rightarrow> PNone | Some a \<Rightarrow> a),
                    df_question_plus =
                      (case map_of d (PStr ''question_plus'') of None \<Rightarrow> PNone | Some p \<Rightarrow> p)\<rparr>))"
proof (cases "map_of d (PStr ''question'')")
  case None
  with assms show ?thesis
    by (simp add: record_of_row_def py_getitem_def)
next
  case q: (Some q)
  show ?thesis
  proof (cases "map_of d (PStr ''choices'')")
    case None
    with assms q show ?thesis
      by (simp add: record_of_row_def py_getitem_def)
  next
    case c: (Some c)
    show ?thesis
    proof (cases "map_of d (PStr ''question_plus'')")
      case None
      with assms q c show ?thesis
        by (simp add: record_of_row_def py_getitem_def py_get_def py_contains_def)
    next
      case (Some p)
      with assms q c show ?thesis
        by (simp add: record_of_row_def py_getitem_def py_get_def py_contains_def)
    qed
  qed
qed

lemma record_of_row_ids:
  assumes "record_of_row le row = Inr r"
  shows "df_id r = row_id row \<and> df_paragraph r = row_paragraph row"
proof (cases "le (row_problems row)")
  case None
  with assms show ?thesis by (simp add: record_of_row_undecoded)
next
  case (Some v)
  show ?thesis
  proof (cases "\<exists>d. v = PDict d")
    case False
    with Some assms show ?thesis by (simp add: record_of_row_not_dict)
  next
    case True
    then obtain d where "v = PDict d" by blast
    with Some have "le (row_problems row) = Some (PDict d)" by simp
    with record_of_row_dict[of le row d] assms show ?thesis
      by (auto split: option.splits)
  qed
qed

lemma record_of_row_parse_error:
  "record_of_row le row = Inl ParseError \<longleftrightarrow> le (row_problems row) = None"
proof (cases "le (row_problems row)")
  case None
  then show ?thesis by (simp add: record_of_row_undecoded)
next
  case (Some v)
  show ?thesis
  proof (cases "\<exists>d. v = PDict d")
    case False
    with Some show ?thesis by (simp add: record_of_row_not_dict)
  next
    case True
    then obtain d where "v = PDict d" by blast
    with Some have s: "le (row_problems row) = Some (PDict d)" by simp
    from record_of_row_dict[of le row d] s show ?thesis
      by (simp split: option.splits)
  qed
qed

text \<open>
  Claim C7. A record that \<open>record_to_df\<close> builds has the id and the paragraph of its row.
  When the decoded dictionary has no key \<open>question_plus\<close>, the row never fails on that
  key: the record has \<open>question_plus = None\<close>, and it is built whenever the keys
  \<open>question\<close> and \<open>choices\<close> are there. The row fails with the parse error exactly when
  its \<open>problems\<close> text cannot be decoded (a decoded text without \<open>question\<close> or
  \<open>choices\<close> fails with \<open>KeyError\<close>, one that is no dictionary with \<open>TypeError\<close>).
\<close>

theorem record_of_row_contract:
  "(\<forall>r. record_of_row le row = Inr r \<longrightarrow>
        df_id r = row_id row \<and> df_paragraph r = row_paragraph row)
   \<and> (\<forall>rs. record_to_df le dataset = Inr rs \<longrightarrow>
        map df_id rs = map row_id dataset \<and> map df_paragraph rs = map row_paragraph dataset)
   \<and> (\<forall>d. le (row_problems row) = Some (PDict d) \<and> map_of d (PStr ''question_plus'') = None \<longrightarrow>
        record_of_row le row \<noteq> Inl (KeyError ''question_plus'')
        \<and> (\<forall>r. record_of_row le row = Inr r \<longrightarrow> df_question_plus r = PNone)
        \<and> (map_of d (PStr ''question'') \<noteq> None \<and> map_of d (PStr ''choices'') \<noteq> None \<longrightarrow>
             (\<exists>r. record_of_row le row = Inr r)))
   \<and> (record_of_row le row = Inl ParseError \<longleftrightarrow> le (row_problems row) = None)"
proof (intro conjI allI impI)
  fix r assume "record_of_row le row = Inr r"
  then show "df_id r = row_id row" "df_paragraph r = row_paragraph row"
    by (auto dest: record_of_row_ids)
next
  fix rs assume "record_to_df le dataset = Inr rs"
  then have l: "list_all2 (\<lambda>x y. record_of_row le x = Inr y) dataset rs"
    by (simp add: record_to_df_def collect_Inr_iff)
  then show "map df_id rs = map row_id dataset"
    by (induction rule: list_all2_induct) (simp_all add: record_of_row_ids)
  from l show "map df_paragraph rs = map row_paragraph dataset"
    by (induction rule: list_all2_induct) (simp_all add: record_of_row_ids)
next
  fix d assume d: "le (row_problems row) = Some (PDict d) \<and> map_of d (PStr ''question_plus'') = None"
  note e = record_of_row_dict [of le row d]
  from d e show "record_of_row le row \<noteq> Inl (KeyError ''question_plus'')"
    by (auto split: option.splits)
  {
    fix r assume "record_of_row le row = Inr r"
    with d e show "df_question_plus r = PNone"
      by (auto split: option.splits)
  }
  {
    assume "map_of d (PStr ''question'') \<noteq> None \<and> map_of d (PStr ''choices'') \<noteq> None"
    with d e show "\<exists>r. record_of_row le row = Inr r"
      by (auto split: option.splits)
  }
next
  show "record_of_row le row = Inl ParseError \<longleftrightarrow> le (row_problems row) = None"
    by (rule record_of_row_parse_error)
qed

lemma demo_row_decodes:
  "demo_literal_eval (row_problems demo_row) =
     Some (PDict [(PStr ''question'', PStr ''q''),
                  (PStr ''choices'', PList [PStr ''a'', PStr ''b'']),
                  (PStr ''answer'', PInt 2)])"
  by (simp add: demo_literal_eval_def demo_row_def)

text \<open>The row whose text has no \<open>question_plus\<close> gives a record with its id and with
  \<open>question_plus = None\<close>; a row whose text the parser cannot decode gives the parse
  error.\<close>

theorem record_of_row_contract_witness:
  "(\<exists>r. record_of_row demo_literal_eval demo_row = Inr r
        \<and> df_id r = ''id-1'' \<and> df_paragraph r = ''P'' \<and> df_question_plus r = PNone)
   \<and> record_of_row demo_literal_eval (demo_row\<lparr>row_problems := ''{'question': ''\<rparr>) = Inl ParseError"
proof -
  let ?d = "[(PStr ''question'', PStr ''q''), (PStr ''choices'', PList [PStr ''a'', PStr ''b'']),
             (PStr ''answer'', PInt 2)]"
  note t = record_of_row_contract [of demo_literal_eval demo_row "[]"]
  have k: "map_of ?d (PStr ''question_plus'') = None"
    "map_of ?d (PStr ''question'') \<noteq> None" "map_of ?d (PStr ''choices'') \<noteq> None"
    by simp_all
  from t demo_row_decodes k obtain r where r: "record_of_row demo_literal_eval demo_row = Inr r"
    by blast
  with t demo_row_decodes k have "df_question_plus r = PNone"
    by blast
  moreover from t r have "df_id r = row_id demo_row \<and> df_paragraph r = row_paragraph demo_row"
    by blast
  then have "df_id r = ''id-1'' \<and> df_paragraph r = ''P''"
    by (simp add: demo_row_def)
  moreover have "demo_literal_eval (row_problems (demo_row\<lparr>row_problems := ''{'question': ''\<rparr>)) = None"
    by (simp add: demo_literal_eval_def)
  with record_of_row_contract [of demo_literal_eval "demo_row\<lparr>row_problems := ''{'question': ''\<rparr>" "[]"]
  have "record_of_row demo_literal_eval (demo_row\<lparr>row_problems := ''{'question': ''\<rparr>) = Inl ParseError"
    by blast
  ultimately show ?thesis using r by blast
qed

section \<open>The run name and the try block\<close>

lemma index_of_None: "index_of xs a = None \<longleftrightarrow> a \<notin> set xs"
  by (induction xs) auto

lemma prompt_run_name_skips:
  assumes "\<forall>j<k. stdin (i + j) = Some []" and "stdin (i + k) = Some name" and "name \<noteq> []"
  shows "prompt_run_name stdin i = Some (Inr name)"
  using assms
proof (induction k arbitrary: i)
  case 0
  then show ?case
    by (subst prompt_run_name.simps) simp
next
  case (Suc k)
  from Suc.prems(1) have first: "stdin i = Some []"
    by (metis add.right_neutral zero_less_Suc)
  have "\<forall>j<k. stdin (Suc i + j) = Some []"
  proof (intro allI impI)
    fix j assume "j < k"
    then have "Suc j < Suc k" by simp
    with Suc.prems(1) have "stdin (i + Suc j) = Some []" by blast
    then show "stdin (Suc i + j) = Some []" by simp
  qed
  moreover from Suc.prems(2) have "stdin (Suc i + k) = Some name" by simp
  ultimately have "prompt_run_name stdin (Suc i) = Some (Inr name)"
    using Suc.prems(3) by (rule Suc.IH)
  with first show ?case
    by (subst prompt_run_name.simps) simp
qed

lemma run_core_raises:
  "fst (run_core (Inl err) w) = Inl err"
  "empty_cache_calls (snd (run_core (Inl err) w)) = empty_cache_calls w + 1"
  "is_Exception err \<Longrightarrow> error_log (snd (run_core (Inl err) w)) = error_log w @ [err]"
  by (simp_all add: run_core_def)

text \<open>With \<open>--run_name\<close> as the last word of the command line there is no value to
  read: \<open>sys.argv[argv_run_index]\<close> raises \<open>IndexError\<close>, which line 389 does not catch.\<close>

lemma resolve_run_name_flag_last:
  "resolve_run_name [''main.py'', ''--run_name''] stdin = Some (Inl IndexError)"
  by (simp add: resolve_run_name_def py_index_def)

text \<open>
  Claim C8, as the code has it. When the command line has no word \<open>--run_name\<close>, the
  script asks for the run name
  and asks again after every empty line: with \<open>k\<close> empty lines and then a line that is
  not empty on standard input, it runs \<open>main\<close> with that line as the run name. An
  exception raised by the body of the \<open>try\<close> leaves \<open>main\<close> as that exception, after it
  has been logged (every class under \<open>Exception\<close>) and the accelerator cache has been
  emptied.
\<close>

theorem run_name_prompt_and_fatal_errors:
  "(''--run_name'' \<notin> set argv \<and> (\<forall>j<k. stdin j = Some []) \<and> stdin k = Some name \<and> name \<noteq> [] \<longrightarrow>
      resolve_run_name argv stdin = Some (Inr name)
      \<and> script e argv stdin w = Some (main e name True w))
   \<and> (\<forall>dataset df ctx err.
        load_dataset e debug = Inr dataset \<and> record_to_df (literal_eval e) dataset = Inr df
        \<and> prepare e df = Inr ctx \<and> core e ctx = Inl err \<longrightarrow>
          fst (main e run_name debug w) = Inl err
          \<and> empty_cache_calls (snd (main e run_name debug w)) = empty_cache_calls w + 1
          \<and> (is_Exception err \<longrightarrow>
                error_log (snd (main e run_name debug w)) = error_log w @ [err]))"
proof (intro conjI allI impI)
  assume a: "''--run_name'' \<notin> set argv \<and> (\<forall>j<k. stdin j = Some []) \<and> stdin k = Some name \<and> name \<noteq> []"
  then have "prompt_run_name stdin 0 = Some (Inr name)"
    by (intro prompt_run_name_skips[of k]) simp_all
  with a show r: "resolve_run_name argv stdin = Some (Inr name)"
    by (simp add: resolve_run_name_def index_of_None[THEN iffD2])
  then show "script e argv stdin w = Some (main e name True w)"
    by (simp add: script_def)
next
  fix dataset df ctx err
  assume b: "load_dataset e debug = Inr dataset \<and> record_to_df (literal_eval e) dataset = Inr df
        \<and> prepare e df = Inr ctx \<and> core e ctx = Inl err"
  let ?w1 = "w\<lparr>wandb_name := Some (project_prefix e @ ''_'' @ run_name)\<rparr>"
  from b have m: "main e run_name debug w = run_core (Inl err) ?w1"
    by (simp add: main_def)
  show "fst (main e run_name debug w) = Inl err"
    unfolding m by (rule run_core_raises(1))
  show "empty_cache_calls (snd (main e run_name debug w)) = empty_cache_calls w + 1"
    unfolding m by (simp add: run_core_raises(2))
  assume "is_Exception err"
  then show "error_log (snd (main e run_name debug w)) = error_log w @ [err]"
    unfolding m by (simp add: run_core_raises(3))
qed

lemma collect_replicate: "f x = Inr y \<Longrightarrow> collect f (replicate n x) = Inr (replicate n y)"
  by (induction n) simp_all

lemma demo_record_of_row:
  "record_of_row demo_literal_eval demo_row =
     Inr \<lparr>df_id = ''id-1'', df_paragraph = ''P'', df_question = PStr ''q'',
          df_choices = PList [PStr ''a'', PStr ''b''], df_answer = PInt 2,
          df_question_plus = PNone\<rparr>"
  using demo_row_decodes
    record_of_row_dict [of demo_literal_eval demo_row
      "[(PStr ''question'', PStr ''q''), (PStr ''choices'', PList [PStr ''a'', PStr ''b'']),
        (PStr ''answer'', PInt 2)]"]
  by (simp add: demo_row_def)

lemma demo_record_to_df:
  "record_to_df demo_literal_eval (replicate 500 demo_row) =
     Inr (replicate 500
       \<lparr>df_id = ''id-1'', df_paragraph = ''P'', df_question = PStr ''q'',
        df_choices = PList [PStr ''a'', PStr ''b''], df_answer = PInt 2,
        df_question_plus = PNone\<rparr>)"
  unfolding record_to_df_def by (rule collect_replicate) (rule demo_record_of_row)

text \<open>Launched as \<open>main.py\<close> alone, with one empty line and then \<open>run1\<close> typed, the script
  runs \<open>main\<close> for \<open>run1\<close>; a try body that raises leaves the error in the log and the
  cache emptied once.\<close>

theorem run_name_prompt_and_fatal_errors_witness:
  "resolve_run_name [''main.py''] demo_stdin = Some (Inr ''run1'')
   \<and> script demo_env [''main.py''] demo_stdin demo_world = Some (main demo_env ''run1'' True demo_world)
   \<and> fst (main (demo_env\<lparr>core := \<lambda>ctx. Inl (OtherError ''out of memory'')\<rparr>) ''run1'' False demo_world)
       = Inl (OtherError ''out of memory'')
   \<and> empty_cache_calls (snd (main (demo_env\<lparr>core := \<lambda>ctx. Inl (OtherError ''out of memory'')\<rparr>) ''run1'' False demo_world)) = 1
   \<and> error_log (snd (main (demo_env\<lparr>core := \<lambda>ctx. Inl (OtherError ''out of memory'')\<rparr>) ''run1'' False demo_world))
       = [OtherError ''out of memory'']"
proof -
  let ?e = "demo_env\<lparr>core := \<lambda>ctx. Inl (OtherError ''out of memory'')\<rparr>"
  let ?df = "replicate 500
       \<lparr>df_id = ''id-1'', df_paragraph = ''P'', df_question = PStr ''q'',
        df_choices = PList [PStr ''a'', PStr ''b''], df_answer = PInt 2,
        df_question_plus = PNone\<rparr>"
  have p: "''--run_name'' \<notin> set [''main.py''] \<and> (\<forall>j<1. demo_stdin j = Some [])
      \<and> demo_stdin 1 = Some ''run1'' \<and> ''run1'' \<noteq> []"
    by (simp add: demo_stdin_def)
  note t1 = run_name_prompt_and_fatal_errors
    [where argv = "[''main.py'']" and k = 1 and stdin = demo_stdin and name = "''run1''"
       and e = demo_env and w = demo_world]
  from t1 p have a: "resolve_run_name [''main.py''] demo_stdin = Some (Inr ''run1'')"
    and b: "script demo_env [''main.py''] demo_stdin demo_world = Some (main demo_env ''run1'' True demo_world)"
    by blast+
  have h: "load_dataset ?e False = Inr (replicate 500 demo_row)
      \<and> record_to_df (literal_eval ?e) (replicate 500 demo_row) = Inr ?df
      \<and> prepare ?e ?df = Inr 500 \<and> core ?e 500 = Inl (OtherError ''out of memory'')"
    by (simp add: load_dataset_def demo_env_def demo_record_to_df)
  have x: "is_Exception (OtherError ''out of memory'')" by simp
  note t2 = run_name_prompt_and_fatal_errors
    [where e = ?e and debug = False and w = demo_world and run_name = "''run1''"]
  from t2 h x have c: "fst (main ?e ''run1'' False demo_world) = Inl (OtherError ''out of memory'')"
    and d: "empty_cache_calls (snd (main ?e ''run1'' False demo_world)) = empty_cache_calls demo_world + 1"
    and f: "error_log (snd (main ?e ''run1'' False demo_world)) = error_log demo_world @ [OtherError ''out of memory'']"
    by blast+
  from d have d': "empty_cache_calls (snd (main ?e ''run1'' False demo_world)) = 1"
    by (simp add: demo_world_def)
  from f have f': "error_log (snd (main ?e ''run1'' False demo_world)) = [OtherError ''out of memory'']"
    by (simp add: demo_world_def)
  from a b c d' f' show ?thesis
    by (intro conjI)
qed

text \<open>
  Two launches without a run name that do not ask for one, although standard input holds
  the name \<open>run1\<close>. With \<open>--run_name\<close> as the last word the script fails at once with
  \<open>IndexError\<close>, before \<open>main\<close>; with the empty word after \<open>--run_name\<close> it runs
  \<open>main\<close> with the empty run name.
\<close>

theorem run_name_prompt_and_fatal_errors_counterexample:
  "demo_stdin 1 = Some ''run1''
   \<and> script demo_env [''main.py'', ''--run_name''] demo_stdin demo_world
       = Some (Inl IndexError, demo_world)
   \<and> script demo_env [''main.py'', ''--run_name'', []] demo_stdin demo_world
       = Some (main demo_env [] True demo_world)"
proof (intro conjI)
  show "demo_stdin 1 = Some ''run1''"
    by (simp add: demo_stdin_def)
  show "script demo_env [''main.py'', ''--run_name''] demo_stdin demo_world
       = Some (Inl IndexError, demo_world)"
    by (simp add: script_def resolve_run_name_flag_last)
  have "resolve_run_name [''main.py'', ''--run_name'', []] demo_stdin = Some (Inr [])"
    by (simp add: resolve_run_name_def py_index_def)
  then show "script demo_env [''main.py'', ''--run_name'', []] demo_stdin demo_world
       = Some (main demo_env [] True demo_world)"
    by (simp add: script_def)
qed

section \<open>The debug sample\<close>







section \<open>The number of choices of an inference item\<close>

lemma user_message_choices:
  "\<exists>t kw. t \<in> {q_plus, no_q_plus}
     \<and> user_message fmt q_plus no_q_plus r = fmt t (kw @ [(''choices'', choices_string (rec_choices r))])"
proof (cases "rec_question_plus r")
  case None
  have "user_message fmt q_plus no_q_plus r =
      fmt no_q_plus ([(''paragraph'', rec_paragraph r), (''question'', rec_question r)]
        @ [(''choices'', choices_string (rec_choices r))])"
    using None by (simp add: user_message_def)
  then show ?thesis by blast
next
  case (Some qp)
  show ?thesis
  proof (cases "qp = []")
    case True
    have "user_message fmt q_plus no_q_plus r =
      fmt no_q_plus ([(''paragraph'', rec_paragraph r), (''question'', rec_question r)]
        @ [(''choices'', choices_string (rec_choices r))])"
      using Some True by (simp add: user_message_def)
    then show ?thesis by blast
  next
    case False
    have "user_message fmt q_plus no_q_plus r =
      fmt q_plus ([(''paragraph'', rec_paragraph r), (''question'', rec_question r),
          (''question_plus'', qp)]
        @ [(''choices'', choices_string (rec_choices r))])"
      using Some False by (simp add: user_message_def)
    then show ?thesis by blast
  qed
qed

lemma test_item_len_choices:
  "test_item fmt q_plus no_q_plus r = Inr item \<Longrightarrow>
     len_choices item = length (rec_choices r)
     \<and> user_message fmt q_plus no_q_plus r = Inr (msg_content (item_messages item ! 1))"
  by (auto simp: test_item_def split: sum.splits)

text \<open>
  Claim C10, as the code has it. For every inference row, \<open>len_choices\<close> of the item is
  \<open>len(row["choices"])\<close>, the number of entries enumerated into the choices block that the
  template of the item's user message is filled with; both come from the same
  \<open>row["choices"]\<close>. It is the number of lines of that block when the row has at least
  one choice and no choice text contains a newline.
\<close>

theorem len_choices_matches_block:
  "(\<forall>items. test_df_to_process_df fmt dataset q_plus no_q_plus = Inr items \<longrightarrow>
      length items = length dataset
      \<and> (\<forall>i<length dataset.
            len_choices (items ! i) = length (rec_choices (dataset ! i))
            \<and> user_message fmt q_plus no_q_plus (dataset ! i) =
                Inr (msg_content (item_messages (items ! i) ! 1))
            \<and> (rec_choices (dataset ! i) \<noteq> []
                  \<and> (\<forall>c\<in>set (rec_choices (dataset ! i)). newline \<notin> set c) \<longrightarrow>
                length (lines_of (choices_string (rec_choices (dataset ! i))))
                  = len_choices (items ! i))))
   \<and> (\<exists>t kw. t \<in> {q_plus, no_q_plus}
         \<and> user_message fmt q_plus no_q_plus r =
             fmt t (kw @ [(''choices'', choices_string (rec_choices r))]))"
proof (intro conjI allI impI)
  show "\<exists>t kw. t \<in> {q_plus, no_q_plus}
         \<and> user_message fmt q_plus no_q_plus r =
             fmt t (kw @ [(''choices'', choices_string (rec_choices r))])"
    by (rule user_message_choices)
next
  fix items assume "test_df_to_process_df fmt dataset q_plus no_q_plus = Inr items"
  then have c: "collect (test_item fmt q_plus no_q_plus) dataset = Inr items"
    by (simp add: test_df_to_process_df_def)
  show "length items = length dataset"
    using c by (rule collect_Inr_nth(1))
  fix i assume "i < length dataset"
  with c have "test_item fmt q_plus no_q_plus (dataset ! i) = Inr (items ! i)"
    by (rule collect_Inr_nth(2))
  then have ab: "len_choices (items ! i) = length (rec_choices (dataset ! i))
     \<and> user_message fmt q_plus no_q_plus (dataset ! i) =
         Inr (msg_content (item_messages (items ! i) ! 1))"
    by (rule test_item_len_choices)
  from ab show n: "len_choices (items ! i) = length (rec_choices (dataset ! i))"
    by (rule conjunct1)
  from ab show "user_message fmt q_plus no_q_plus (dataset ! i) =
      Inr (msg_content (item_messages (items ! i) ! 1))"
    by (rule conjunct2)
  assume "rec_choices (dataset ! i) \<noteq> [] \<and> (\<forall>c\<in>set (rec_choices (dataset ! i)). newline \<notin> set c)"
  then have "lines_of (choices_string (rec_choices (dataset ! i)))
      = map choice_line (enumerate 0 (rec_choices (dataset ! i)))"
    by (intro lines_of_choices_string) simp_all
  then show "length (lines_of (choices_string (rec_choices (dataset ! i)))) = len_choices (items ! i)"
    by (simp add: n)
qed

text \<open>The record with the choices A and B: the item has \<open>len_choices = 2\<close>, and the
  block in its user message has two lines.\<close>

theorem len_choices_matches_block_witness:
  "\<exists>items. test_df_to_process_df format_fields [demo_record] demo_q_plus demo_no_q_plus = Inr items
     \<and> len_choices (items ! 0) = 2
     \<and> msg_content (item_messages (items ! 0) ! 1) = ''Q 1 - A\<newline>2 - B''
     \<and> length (lines_of (choices_string [''A'', ''B''])) = 2"
proof -
  note t = len_choices_matches_block
    [where fmt = format_fields and dataset = "[demo_record]" and q_plus = demo_q_plus
       and no_q_plus = demo_no_q_plus]
  obtain items where items:
    "test_df_to_process_df format_fields [demo_record] demo_q_plus demo_no_q_plus = Inr items"
    by (simp add: test_df_to_process_df_def test_item_def user_message_demo)
  have i: "0 < length [demo_record]" by simp
  have c: "rec_choices demo_record = [''A'', ''B'']"
    by (simp add: demo_record_def)
  have nl: "rec_choices ([demo_record] ! 0) \<noteq> []
      \<and> (\<forall>c\<in>set (rec_choices ([demo_record] ! 0)). newline \<notin> set c)"
    by (simp add: c newline_def)
  from t items i have f: "len_choices (items ! 0) = length (rec_choices ([demo_record] ! 0))
      \<and> user_message format_fields demo_q_plus demo_no_q_plus ([demo_record] ! 0) =
          Inr (msg_content (item_messages (items ! 0) ! 1))
      \<and> (rec_choices ([demo_record] ! 0) \<noteq> []
            \<and> (\<forall>c\<in>set (rec_choices ([demo_record] ! 0)). newline \<notin> set c) \<longrightarrow>
          length (lines_of (choices_string (rec_choices ([demo_record] ! 0))))
            = len_choices (items ! 0))"
    by blast
  from f have a: "len_choices (items ! 0) = 2"
    by (simp add: c)
  from f have b: "msg_content (item_messages (items ! 0) ! 1) = ''Q 1 - A\<newline>2 - B''"
    by (simp add: user_message_demo)
  from f nl have "length (lines_of (choices_string (rec_choices ([demo_record] ! 0))))
            = len_choices (items ! 0)"
    by blast
  with a have d: "length (lines_of (choices_string [''A'', ''B''])) = 2"
    by (simp add: c)
  from items a b d show ?thesis
    by (intro exI[of _ items] conjI)
qed

text \<open>A row whose first choice holds a newline, with the template \<open>{choices}\<close>: the item
  has \<open>len_choices = 2\<close>, and the choices block that is its user message has three
  lines.\<close>

theorem len_choices_matches_block_counterexample:
  "test_df_to_process_df format_fields [demo_record\<lparr>rec_choices := [''a\<newline>b'', ''c'']\<rparr>]
       ''{choices}'' ''{choices}''
     = Inr [\<lparr>item_id = ''id-1'',
             item_messages =
               [\<lparr>msg_role = System, msg_content = system_instruction\<rparr>,
                \<lparr>msg_role = User, msg_content = ''1 - a\<newline>b\<newline>2 - c''\<rparr>],
             item_label = Some 2, len_choices = 2\<rparr>]
   \<and> length (lines_of ''1 - a\<newline>b\<newline>2 - c'') = 3"
proof (intro conjI)
  have c: "choices_string [''a\<newline>b'', ''c''] = ''1 - a\<newline>b\<newline>2 - c''"
    by (simp add: choices_string_def enumerate_eq_zip choice_line_def str_nat_Suc_small upt_rec
        newline_def)
  have u: "user_message format_fields ''{choices}'' ''{choices}''
      (demo_record\<lparr>rec_choices := [''a\<newline>b'', ''c'']\<rparr>) = Inr ''1 - a\<newline>b\<newline>2 - c''"
    by (simp add: user_message_def demo_record_def c format_fields_def)
  show "test_df_to_process_df format_fields [demo_record\<lparr>rec_choices := [''a\<newline>b'', ''c'']\<rparr>]
       ''{choices}'' ''{choices}''
     = Inr [\<lparr>item_id = ''id-1'',
             item_messages =
               [\<lparr>msg_role = System, msg_content = system_instruction\<rparr>,
                \<lparr>msg_role = User, msg_content = ''1 - a\<newline>b\<newline>2 - c''\<rparr>],
             item_label = Some 2, len_choices = 2\<rparr>]"
    by (simp add: test_df_to_process_df_def test_item_def u) (simp add: demo_record_def)
  show "length (lines_of ''1 - a\<newline>b\<newline>2 - c'') = 3"
    by (simp add: lines_of_def newline_def)
qed

end
